theory Spec2Isabelle
  imports Main "HOL-Library.AList"
begin

section \<open>Values, errors and outcomes\<close>

text \<open>
  The module layer of k6 (package \<open>modules\<close>): the resolver and its cache, the module
  system, the legacy \<open>require\<close>, and the four module record variants. Go pointers are
  addresses (natural numbers), Go maps whose iteration matters are association lists (the
  list order is the iteration order of the run), a Go \<open>nil\<close> is a constructor or \<open>None\<close>,
  and a panic is a value of the result type.
\<close>

datatype error =
    UnknownModule string \<comment> \<open>\<open>fmt.Errorf("unknown module: %s", name)\<close>\<close>
  | EmptySpecifier \<comment> \<open>\<open>errors.New("require() can't be used with an empty specifier")\<close>\<close>
  | ExportsMustBeObject \<comment> \<open>\<open>errors.New("exports must be an object")\<close>\<close>
  | Collaborator string \<comment> \<open>an error value of the loader, the compiler or the engine\<close>

datatype 'a outcome = Return 'a | Panic string

datatype 'a result = Ok 'a | Err error | Fatal string

text \<open>Go values of type \<open>any\<close> as the host modules export them.\<close>

datatype goval =
    GoNil
  | GoBool bool
  | GoInt int
  | GoString string
  | GoMap "(string \<times> goval) list"
  | GoNative nat

text \<open>Values of the scripting engine; an object is a reference into the runtime's heap.\<close>

datatype jsval = Undefined | Null | JSBool bool | JSNum int | JSStr string | JSObj nat

type_synonym jsobject = "(string \<times> jsval) list"

record runtime =
  objs :: "jsobject list"

definition NewObject :: "runtime \<Rightarrow> nat \<times> runtime" where
  "NewObject rt = (length (objs rt), rt\<lparr>objs := objs rt @ [[]]\<rparr>)"

definition Set_prop :: "nat \<Rightarrow> string \<Rightarrow> jsval \<Rightarrow> runtime \<Rightarrow> runtime" where
  "Set_prop r k x rt = rt\<lparr>objs := (objs rt)[r := AList.update k x (objs rt ! r)]\<rparr>"

text \<open>\<open>Object.Get\<close>: Go \<open>nil\<close> (here \<open>None\<close>) when the object has no such property.\<close>

definition Get_prop :: "nat \<Rightarrow> string \<Rightarrow> runtime \<Rightarrow> jsval option" where
  "Get_prop r k rt = map_of (objs rt ! r) k"

definition Keys :: "nat \<Rightarrow> runtime \<Rightarrow> string list" where
  "Keys r rt = map fst (objs rt ! r)"

definition IsNull :: "jsval option \<Rightarrow> bool" where
  "IsNull x = (x = Some Null)"

fun ToBoolean :: "jsval \<Rightarrow> bool" where
  "ToBoolean Undefined = False"
| "ToBoolean Null = False"
| "ToBoolean (JSBool b) = b"
| "ToBoolean (JSNum n) = (n \<noteq> 0)"
| "ToBoolean (JSStr s) = (s \<noteq> [])"
| "ToBoolean (JSObj r) = True"

text \<open>
  \<open>Exports\<close> of a conforming host module: \<open>Named\<close> is a Go map (\<open>None\<close> is the nil map),
  \<open>Default\<close> an \<open>any\<close> (\<open>GoNil\<close> is nil).
\<close>

record Exports =
  Named :: "(string \<times> goval) list option"
  Default :: goval

text \<open>
  \<open>Runtime.ToValue\<close> belongs to the engine: it is a parameter \<open>tv\<close> of the functions below,
  and it may allocate.
\<close>

type_synonym toValue = "goval \<Rightarrow> runtime \<Rightarrow> jsval \<times> runtime"

section \<open>gomodule.go: conforming host modules\<close>

text \<open>
  \<open>goModule\<close>: the module \<open>gm_m\<close> is what \<open>NewModuleInstance(vu)\<close> makes of a VU, an
  instance being given by what its \<open>Exports()\<close> returns; \<open>gm_once\<close> says that the
  \<open>sync.Once\<close> has fired.
\<close>

record goModule =
  gm_m :: "nat \<Rightarrow> Exports"
  gm_once :: bool
  gm_exportedNames :: "string list"

record goModuleInstance =
  gmi_mi :: Exports
  gmi_defaultExport :: "jsval option"

definition goModule_Instantiate :: "goModule \<Rightarrow> nat \<Rightarrow> goModuleInstance \<times> goModule" where
  "goModule_Instantiate gm vu =
     (let mi = gm_m gm vu;
          gm' = (if gm_once gm then gm
                 else (let named = (case Named mi of None \<Rightarrow> [] | Some nm \<Rightarrow> nm)
                       in gm\<lparr>gm_once := True,
                             gm_exportedNames :=
                               fold (\<lambda>(name, x) names. names @ [name]) named
                                 (replicate (length named) [])\<rparr>))
      in (\<lparr>gmi_mi = mi, gmi_defaultExport = None\<rparr>, gm'))"

text \<open>A panic inside \<open>once.Do\<close> still marks the \<open>Once\<close> as done.\<close>

definition goModule_GetExportedNames :: "goModule \<Rightarrow> string list outcome \<times> goModule" where
  "goModule_GetExportedNames gm =
     (if gm_once gm then (Return (gm_exportedNames gm), gm)
      else (Panic ''this shouldn't happen'', gm\<lparr>gm_once := True\<rparr>))"

definition instantiateAll :: "goModule \<Rightarrow> nat list \<Rightarrow> goModule" where
  "instantiateAll gm vus = fold (\<lambda>vu g. snd (goModule_Instantiate g vu)) vus gm"

text \<open>The loop of \<open>getDefaultExport\<close> over \<open>exports.Named\<close>.\<close>

definition setNamed :: "toValue \<Rightarrow> nat \<Rightarrow> (string \<times> goval) list \<Rightarrow> runtime \<Rightarrow> runtime" where
  "setNamed tv r named rt =
     fold (\<lambda>(name, x) rt1. (let (jv, rt2) = tv x rt1 in Set_prop r name jv rt2)) named rt"

definition getDefaultExport ::
  "toValue \<Rightarrow> goModuleInstance \<Rightarrow> runtime \<Rightarrow> jsval \<times> goModuleInstance \<times> runtime" where
  "getDefaultExport tv gmi rt =
     (case gmi_defaultExport gmi of
        Some d \<Rightarrow> (d, gmi, rt)
      | None \<Rightarrow>
          (let exports = gmi_mi gmi in
           if Default exports \<noteq> GoNil then
             (let (d, rt1) = tv (Default exports) rt
              in (d, gmi\<lparr>gmi_defaultExport := Some d\<rparr>, rt1))
           else
             (let (r, rt1) = NewObject rt;
                  gmi1 = gmi\<lparr>gmi_defaultExport := Some (JSObj r)\<rparr>;
                  rt2 = setNamed tv r (case Named exports of None \<Rightarrow> [] | Some nm \<Rightarrow> nm) rt1
              in (JSObj r, gmi1, rt2))))"

text \<open>
  \<open>goModuleInstance.GetBindingValue\<close>. \<open>Value.ToObject\<close> is the engine's (\<open>toObj\<close>, which
  fails on \<open>undefined\<close> and \<open>null\<close>); a missing key of a Go map reads as nil.
\<close>

definition goModuleInstance_GetBindingValue ::
  "toValue \<Rightarrow> (jsval \<Rightarrow> runtime \<Rightarrow> (nat \<times> runtime) outcome) \<Rightarrow> goModuleInstance \<Rightarrow> string \<Rightarrow>
     runtime \<Rightarrow> jsval option outcome \<times> goModuleInstance \<times> runtime" where
  "goModuleInstance_GetBindingValue tv toObj gmi name rt =
     (if name = ''default'' then
        (let (d, gmi1, rt1) = getDefaultExport tv gmi rt in (Return (Some d), gmi1, rt1))
      else
        (case Named (gmi_mi gmi) of
           Some nm \<Rightarrow>
             (let (x, rt1) = tv (case map_of nm name of None \<Rightarrow> GoNil | Some g \<Rightarrow> g) rt
              in (Return (Some x), gmi, rt1))
         | None \<Rightarrow>
             (let (d, gmi1, rt1) = getDefaultExport tv gmi rt in
              case toObj d rt1 of
                Panic msg \<Rightarrow> (Panic msg, gmi1, rt1)
              | Return (r, rt2) \<Rightarrow> (Return (Get_prop r name rt2), gmi1, rt2))))"

section \<open>gomodule_basic.go: host modules that are not conforming\<close>

record baseGoModule =
  bgm_m :: goval
  bgm_once :: bool
  bgm_exportedNames :: "string list"

record basicGoModuleInstance =
  bgmi_v :: nat

text \<open>\<open>rt.ToValue(bgm.m).ToObject(rt)\<close> is the engine's: the parameter \<open>tvo\<close>.\<close>

definition baseGoModule_Instantiate ::
  "(goval \<Rightarrow> runtime \<Rightarrow> nat \<times> runtime) \<Rightarrow> baseGoModule \<Rightarrow> runtime \<Rightarrow>
     basicGoModuleInstance \<times> baseGoModule \<times> runtime" where
  "baseGoModule_Instantiate tvo bgm rt =
     (let (r, rt1) = tvo (bgm_m bgm) rt;
          bgm1 = (if bgm_once bgm then bgm
                  else bgm\<lparr>bgm_once := True, bgm_exportedNames := Keys r rt1\<rparr>)
      in (\<lparr>bgmi_v = r\<rparr>, bgm1, rt1))"

definition basicGoModuleInstance_GetBindingValue ::
  "basicGoModuleInstance \<Rightarrow> string \<Rightarrow> runtime \<Rightarrow> jsval option" where
  "basicGoModuleInstance_GetBindingValue bgmi n rt =
     (if n = ''default'' then Some (JSObj (bgmi_v bgmi)) else Get_prop (bgmi_v bgmi) n rt)"

text \<open>
  An engine whose \<open>ToValue\<close> turns a Go value into the script value \<open>conv\<close> gives for it
  and allocates nothing.
\<close>

definition converts :: "toValue \<Rightarrow> (goval \<Rightarrow> jsval) \<Rightarrow> bool" where
  "converts tv conv = (\<forall>g rt. tv g rt = (conv g, rt))"

section \<open>Export bridging (\<open>toESModuleExports\<close>)\<close>

text \<open>
  The result map is filled entry by entry (\<open>result[k] = v\<close>), then \<open>default\<close> and
  \<open>__esModule\<close> are written over whatever the named entries put there.
\<close>

definition toESModuleExports :: "Exports \<Rightarrow> goval" where
  "toESModuleExports exp =
     (case Named exp of
        None \<Rightarrow> Default exp
      | Some nm \<Rightarrow>
          if Default exp = GoNil then GoMap nm
          else (let result = fold (\<lambda>(k, x) res. AList.update k x res) nm [];
                    result1 = AList.update ''default'' (Default exp) result;
                    result2 = AList.update ''__esModule'' (GoBool True) result1
                in GoMap result2))"

section \<open>CommonJS modules (\<open>cjsModule\<close>, \<open>cjsModuleInstance\<close>)\<close>

datatype program = Program nat

record cjsModule =
  cm_prg :: program
  cm_main :: bool
  cm_exportedNames :: "string list"
  cm_o :: bool

text \<open>\<open>cmi_exports\<close> is a \<open>*goja.Object\<close>: \<open>None\<close> until the module has run.\<close>

record cjsModuleInstance =
  cmi_exports :: "nat option"
  cmi_isEsModuleMarked :: bool

text \<open>
  What \<open>ExecuteModule\<close> asks of the engine: running the program gives the wrapping
  function (or an error), \<open>AssertFunction\<close> gives the callable of a function value (called
  with \<open>this\<close> and the arguments, it may change any object and returns an error or not),
  and \<open>ToObject\<close> converts a value, or throws.
\<close>

record jsengine =
  RunProgram :: "program \<Rightarrow> runtime \<Rightarrow> (error + jsval) \<times> runtime"
  AssertFunction ::
    "jsval \<Rightarrow> (jsval \<Rightarrow> jsval list \<Rightarrow> runtime \<Rightarrow> error option \<times> runtime) option"
  ToObject :: "jsval \<Rightarrow> runtime \<Rightarrow> (nat \<times> runtime) outcome"

text \<open>
  Lines 298 to 309 of \<open>ExecuteModule\<close>: what the body left in \<open>module.exports\<close> is read
  back. Only \<open>goja.IsNull\<close> guards the conversion to an object.
\<close>

definition cjs_readExports ::
  "jsengine \<Rightarrow> cjsModuleInstance \<Rightarrow> cjsModule \<Rightarrow> nat \<Rightarrow> runtime \<Rightarrow>
     unit result \<times> cjsModuleInstance \<times> cjsModule \<times> runtime" where
  "cjs_readExports je cmi1 cm module rt5 =
     (let exportsV = Get_prop module ''exports'' rt5 in
      if IsNull exportsV then (Err ExportsMustBeObject, cmi1, cm, rt5)
      else
        (case exportsV of
           None \<Rightarrow> (Fatal ''nil pointer dereference'', cmi1, cm, rt5)
         | Some x \<Rightarrow>
             (case ToObject je x rt5 of
                Panic msg \<Rightarrow> (Fatal msg, cmi1, cm, rt5)
              | Return (r, rt6) \<Rightarrow>
                  (let cmi2 = cmi1\<lparr>cmi_exports := Some r\<rparr>;
                       cm1 = (if cm_o cm then cm
                              else cm\<lparr>cm_exportedNames := Keys r rt6, cm_o := True\<rparr>);
                       es = Get_prop r ''__esModule'' rt6;
                       cmi3 = cmi2\<lparr>cmi_isEsModuleMarked :=
                                (case es of None \<Rightarrow> False | Some b \<Rightarrow> ToBoolean b)\<rparr>
                   in (Ok (), cmi3, cm1, rt6)))))"

text \<open>\<open>cjsModuleInstance.ExecuteModule\<close>.\<close>

definition cjs_ExecuteModule ::
  "jsengine \<Rightarrow> cjsModuleInstance \<Rightarrow> cjsModule \<Rightarrow> runtime \<Rightarrow>
     unit result \<times> cjsModuleInstance \<times> cjsModule \<times> runtime" where
  "cjs_ExecuteModule je cmi cm rt =
     (case RunProgram je (cm_prg cm) rt of
        (Inl e, rt1) \<Rightarrow> (Err e, cmi, cm, rt1)
      | (Inr f, rt1) \<Rightarrow>
          (let (module, rt2) = NewObject rt1;
               (ex, rt3) = NewObject rt2;
               cmi1 = cmi\<lparr>cmi_exports := Some ex\<rparr>;
               rt4 = Set_prop module ''exports'' (JSObj ex) rt3
           in case AssertFunction je f of
                None \<Rightarrow>
                  (Fatal ''Somehow a commonjs module is not wrapped in a function - this is a k6 bug'',
                   cmi1, cm, rt4)
              | Some call \<Rightarrow>
                  (case call (JSObj ex) [JSObj module, JSObj ex] rt4 of
                     (Some e, rt5) \<Rightarrow> (Err e, cmi1, cm, rt5)
                   | (None, rt5) \<Rightarrow> cjs_readExports je cmi1 cm module rt5)))"

definition cjs_GetBindingValue ::
  "cjsModuleInstance \<Rightarrow> string \<Rightarrow> runtime \<Rightarrow> jsval option outcome" where
  "cjs_GetBindingValue cmi name rt =
     (case cmi_exports cmi of
        None \<Rightarrow> Panic ''nil pointer dereference''
      | Some ex \<Rightarrow>
          if name = ''default'' then
            (case Get_prop ex ''default'' rt of
               Some d \<Rightarrow> Return (Some d)
             | None \<Rightarrow> Return (Some (JSObj ex)))
          else Return (Get_prop ex name rt))"

section \<open>The resolver and its cache (\<open>ModuleResolver\<close>)\<close>

text \<open>
  \<open>net/url\<close> and the package \<open>loader\<close> are not part of these files: a URL is its scheme,
  host and path, and \<open>String\<close>, \<open>JoinPath\<close>, \<open>loader.Resolve\<close> and \<open>loader.Dir\<close> are
  parameters, as are the file loader, the compiler and \<open>goja.ModuleFromAST\<close>.
\<close>

datatype url = URL (Scheme: string) (Host: string) (Path: string)

text \<open>An entry of the table of host modules: it implements \<open>Module\<close>, or it does not.\<close>

datatype native = K6Module nat | Plain goval

text \<open>
  A \<open>goja.ModuleRecord\<close>: the nil interface, a pointer to one of this package's records
  or to the engine's source text module record (a pointer is an address and what was
  stored there when it was made), or the nil pointer \<open>ModuleFromAST\<close> returns with an
  error.
\<close>

datatype ModuleRecord =
    NilModule
  | GoModuleRec nat nat
  | BaseGoModuleRec nat goval
  | CjsModuleRec nat program
  | SourceTextModuleRec nat program
  | NilSourceTextModule

record moduleCacheElement =
  ce_mod :: ModuleRecord
  ce_err :: "error option"

text \<open>
  The mutable part of \<open>ModuleResolver\<close>: the cache and the reverse map; \<open>mr_next\<close> is the
  next free address, and the three lists record, in order, the locators the loader, the
  compiler's \<open>Parse\<close> and the compiler's \<open>Compile\<close> were called for.
\<close>

record ModuleResolver =
  mr_cache :: "string \<rightharpoonup> moduleCacheElement"
  mr_reverse :: "ModuleRecord \<rightharpoonup> url"
  mr_next :: nat
  loadCalls :: "string list"
  parseCalls :: "string list"
  compileCalls :: "string list"

text \<open>The fields of \<open>ModuleResolver\<close> set once by \<open>NewModuleResolver\<close>, and the collaborators.\<close>

record environment =
  goModules :: "string \<rightharpoonup> native"
  loadCJS :: "url \<Rightarrow> string \<Rightarrow> error + string"
  compiler_Parse :: "string \<Rightarrow> string \<Rightarrow> error + program \<times> bool"
  compiler_Compile :: "string \<Rightarrow> string \<Rightarrow> error + program"
  ModuleFromAST :: "program \<Rightarrow> error option"
  base :: url
  loader_Resolve :: "url \<Rightarrow> string \<Rightarrow> error + url"
  loader_Dir :: "url \<Rightarrow> url"
  url_String :: "url \<Rightarrow> string"
  url_JoinPath :: "url \<Rightarrow> string \<Rightarrow> url"

definition NewModuleResolver :: ModuleResolver where
  "NewModuleResolver =
     \<lparr>mr_cache = Map.empty, mr_reverse = Map.empty, mr_next = 0,
      loadCalls = [], parseCalls = [], compileCalls = []\<rparr>"

text \<open>\<open>arg == "k6"\<close> or \<open>strings.HasPrefix(arg, "k6/")\<close>.\<close>

definition builtin :: "string \<Rightarrow> bool" where
  "builtin arg = (arg = ''k6'' \<or> take 3 arg = ''k6/'')"

definition resolveSpecifier :: "environment \<Rightarrow> url \<Rightarrow> string \<Rightarrow> error + url" where
  "resolveSpecifier env basePWD arg = loader_Resolve env basePWD arg"

definition requireModule ::
  "environment \<Rightarrow> string \<Rightarrow> ModuleResolver \<Rightarrow> (ModuleRecord \<times> error option) \<times> ModuleResolver" where
  "requireModule env name mr =
     (case goModules env name of
        None \<Rightarrow> ((NilModule, Some (UnknownModule name)), mr)
      | Some (Plain x) \<Rightarrow>
          ((BaseGoModuleRec (mr_next mr) x, None), mr\<lparr>mr_next := Suc (mr_next mr)\<rparr>)
      | Some (K6Module k) \<Rightarrow>
          ((GoModuleRec (mr_next mr) k, None), mr\<lparr>mr_next := Suc (mr_next mr)\<rparr>))"

definition cjsModuleFromString ::
  "environment \<Rightarrow> url \<Rightarrow> string \<Rightarrow> ModuleResolver \<Rightarrow>
     (ModuleRecord \<times> error option) \<times> ModuleResolver" where
  "cjsModuleFromString env fileURL data mr =
     (let mr1 = mr\<lparr>compileCalls := compileCalls mr @ [url_String env fileURL]\<rparr> in
      case compiler_Compile env data (url_String env fileURL) of
        Inl e \<Rightarrow> ((NilModule, Some e), mr1)
      | Inr pgm \<Rightarrow>
          ((CjsModuleRec (mr_next mr1) pgm, None), mr1\<lparr>mr_next := Suc (mr_next mr1)\<rparr>))"

definition gojaModuleFromAST ::
  "environment \<Rightarrow> program \<Rightarrow> ModuleResolver \<Rightarrow> (ModuleRecord \<times> error option) \<times> ModuleResolver" where
  "gojaModuleFromAST env prg mr =
     (case ModuleFromAST env prg of
        Some e \<Rightarrow> ((NilSourceTextModule, Some e), mr)
      | None \<Rightarrow>
          ((SourceTextModuleRec (mr_next mr) prg, None), mr\<lparr>mr_next := Suc (mr_next mr)\<rparr>))"

definition resolveLoaded ::
  "environment \<Rightarrow> url \<Rightarrow> string \<Rightarrow> string \<Rightarrow> ModuleResolver \<Rightarrow>
     (ModuleRecord \<times> error option) \<times> ModuleResolver" where
  "resolveLoaded env basePWD arg data mr =
     (case resolveSpecifier env basePWD arg of
        Inl e \<Rightarrow> ((NilModule, Some e), mr)
      | Inr specifier \<Rightarrow>
          (let key = url_String env specifier in
           case mr_cache mr key of
             Some cached \<Rightarrow> ((ce_mod cached, ce_err cached), mr)
           | None \<Rightarrow>
               (let mr1 = mr\<lparr>parseCalls := parseCalls mr @ [key]\<rparr> in
                case compiler_Parse env data key of
                  Inl e \<Rightarrow>
                    ((NilModule, Some e),
                     mr1\<lparr>mr_cache := (mr_cache mr1)(key \<mapsto> \<lparr>ce_mod = NilModule, ce_err = Some e\<rparr>)\<rparr>)
                | Inr (prg, isESM) \<Rightarrow>
                    (let (me, mr2) = (if isESM then gojaModuleFromAST env prg mr1
                                      else cjsModuleFromString env specifier data mr1)
                     in (me,
                         mr2\<lparr>mr_cache := (mr_cache mr2)(key \<mapsto> \<lparr>ce_mod = fst me, ce_err = snd me\<rparr>),
                             mr_reverse := (mr_reverse mr2)(fst me \<mapsto> specifier)\<rparr>)))))"

definition resolve ::
  "environment \<Rightarrow> url \<Rightarrow> string \<Rightarrow> ModuleResolver \<Rightarrow>
     (ModuleRecord \<times> error option) \<times> ModuleResolver" where
  "resolve env basePWD arg mr =
     (if builtin arg then
        (case mr_cache mr arg of
           Some cached \<Rightarrow> ((ce_mod cached, ce_err cached), mr)
         | None \<Rightarrow>
             (let (me, mr1) = requireModule env arg mr
              in (me, mr1\<lparr>mr_cache := (mr_cache mr1)(arg \<mapsto> \<lparr>ce_mod = fst me, ce_err = snd me\<rparr>)\<rparr>)))
      else
        (case resolveSpecifier env basePWD arg of
           Inl e \<Rightarrow> ((NilModule, Some e), mr)
         | Inr specifier \<Rightarrow>
             (let key = url_String env specifier in
              case mr_cache mr key of
                Some cached \<Rightarrow> ((ce_mod cached, ce_err cached), mr)
              | None \<Rightarrow>
                  (let mr1 = mr\<lparr>loadCalls := loadCalls mr @ [key]\<rparr> in
                   case loadCJS env specifier arg of
                     Inl e \<Rightarrow>
                       ((NilModule, Some e),
                        mr1\<lparr>mr_cache := (mr_cache mr1)(key \<mapsto> \<lparr>ce_mod = NilModule, ce_err = Some e\<rparr>)\<rparr>)
                   | Inr data \<Rightarrow> resolveLoaded env basePWD arg data mr1))))"

definition reversePath :: "environment \<Rightarrow> ModuleResolver \<Rightarrow> ModuleRecord \<Rightarrow> url outcome" where
  "reversePath env mr referencingScriptOrModule =
     (case mr_reverse mr referencingScriptOrModule of
        None \<Rightarrow>
          if referencingScriptOrModule \<noteq> NilModule then Panic ''fix this''
          else Return (base env)
      | Some p \<Rightarrow>
          if url_String env p = ''file://-'' then Return (base env)
          else Return (url_JoinPath env p ''..''))"

definition gojaModuleResolver ::
  "environment \<Rightarrow> ModuleRecord \<Rightarrow> string \<Rightarrow> ModuleResolver \<Rightarrow>
     (ModuleRecord \<times> error option) outcome \<times> ModuleResolver" where
  "gojaModuleResolver env referencingScriptOrModule specifier mr =
     (case reversePath env mr referencingScriptOrModule of
        Panic msg \<Rightarrow> (Panic msg, mr)
      | Return pwd \<Rightarrow> (let (me, mr1) = resolve env pwd specifier mr in (Return me, mr1)))"





section \<open>The module system and the legacy \<open>require\<close>\<close>

record StackFrame =
  FuncName :: string
  SrcName :: string

text \<open>
  The state of a promise; a rejected one carries its result if that is an \<open>error\<close>
  (\<open>promise.Result().Export().(error)\<close> panics when it is not).
\<close>

datatype PromiseState =
    PromiseStatePending
  | PromiseStateFulfilled
  | PromiseStateRejected "error option"

datatype ModuleInstance =
    GoInstance goModuleInstance
  | CjsInstance cjsModuleInstance
  | BasicInstance basicGoModuleInstance
  | EngineInstance

text \<open>
  What \<open>Require\<close> and \<open>RunSourceData\<close> read and write: the resolver, the pointer
  \<open>currentlyRequiredModule\<close> of \<open>LegacyRequireImpl\<close>, the runtime's module instances
  (\<open>rt.GetModuleInstance\<close>) and call stack (\<open>rt.CaptureCallStack\<close>, innermost frame first),
  and the warnings logged.
\<close>

record world =
  resolver :: ModuleResolver
  currentlyRequiredModule :: url
  instances :: "ModuleRecord \<rightharpoonup> ModuleInstance"
  callStack :: "StackFrame list"
  warnings :: "(string \<times> string \<times> string) list"

text \<open>
  The engine: \<open>rt.CyclicModuleRecordEvaluate\<close> followed by the promise's state (it runs
  module bodies, which may call \<open>require\<close> again and change anything), and \<open>Link\<close> of the
  engine's own source text module records.
\<close>

record engine =
  CyclicModuleRecordEvaluate :: "ModuleRecord \<Rightarrow> world \<Rightarrow> PromiseState \<times> world"
  SourceTextModule_Link :: "ModuleRecord \<Rightarrow> world \<Rightarrow> error option \<times> world"

text \<open>
  What \<open>Require\<close> returns: the object \<open>rt.ToValue(exports).ToObject(rt)\<close> of a bridged Go
  value, the exports object of a CommonJS instance, or \<open>rt.NamespaceObjectFor(m)\<close>.
\<close>

datatype requireValue =
    Bridged goval
  | ExportsObject "nat option"
  | NamespaceObject ModuleRecord

definition requireFuncName :: string where
  "requireFuncName = ''go.k6.io/k6/js.(*requireImpl).require-fm''"

definition getCurrentModuleScript :: "StackFrame list \<Rightarrow> string outcome" where
  "getCurrentModuleScript stack =
     (let frames = take 2 stack in
      if length frames < 2 then Panic ''index out of range [1]''
      else Return (SrcName (frames ! 1)))"

text \<open>The loop over \<open>frames[1:]\<close>: \<open>frame\<close> is \<open>frames[i+1]\<close>, the answer \<open>frames[i]\<close>.\<close>

fun findRequiringFrame :: "StackFrame list \<Rightarrow> string option" where
  "findRequiringFrame (f0 # f1 # fs) =
     (if FuncName f1 = requireFuncName then Some (SrcName f0)
      else findRequiringFrame (f1 # fs))"
| "findRequiringFrame fs = None"

definition getPreviousRequiringFile :: "StackFrame list \<Rightarrow> string outcome" where
  "getPreviousRequiringFile stack =
     (let frames = take 1000 stack in
      if frames = [] then Panic ''slice bounds out of range [1:0]''
      else
        (case findRequiringFrame frames of
           Some s \<Rightarrow> Return s
         | None \<Rightarrow>
             if length frames = 1000 then Panic ''stack too big''
             else Return (SrcName (last frames))))"

text \<open>
  \<open>m.Link()\<close>: nil for the records of this package, the engine's for its own records, a
  nil dereference on the nil interface.
\<close>

definition Link :: "engine \<Rightarrow> ModuleRecord \<Rightarrow> world \<Rightarrow> error option outcome \<times> world" where
  "Link eng m w =
     (case m of
        NilModule \<Rightarrow> (Panic ''nil pointer dereference'', w)
      | GoModuleRec a k \<Rightarrow> (Return None, w)
      | BaseGoModuleRec a x \<Rightarrow> (Return None, w)
      | CjsModuleRec a p \<Rightarrow> (Return None, w)
      | SourceTextModuleRec a p \<Rightarrow>
          (let (e, w1) = SourceTextModule_Link eng m w in (Return e, w1))
      | NilSourceTextModule \<Rightarrow>
          (let (e, w1) = SourceTextModule_Link eng m w in (Return e, w1)))"

definition getModuleInstanceFromGoModule ::
  "engine \<Rightarrow> ModuleRecord \<Rightarrow> world \<Rightarrow> goModuleInstance result \<times> world" where
  "getModuleInstanceFromGoModule eng wm w =
     (let assertGo = (\<lambda>mi w1.
            case mi of
              Some (GoInstance gmi) \<Rightarrow> (Ok gmi, w1)
            | _ \<Rightarrow> (Fatal ''a goModule instance is of not goModuleInstance type. This is a k6 bug please report!'', w1))
      in case instances w wm of
           Some mi \<Rightarrow> assertGo (Some mi) w
         | None \<Rightarrow>
             (let (st, w1) = CyclicModuleRecordEvaluate eng wm w in
              case st of
                PromiseStateRejected (Some e) \<Rightarrow> (Err e, w1)
              | PromiseStateRejected None \<Rightarrow> (Fatal ''interface conversion: not an error'', w1)
              | PromiseStateFulfilled \<Rightarrow> assertGo (instances w1 wm) w1
              | PromiseStatePending \<Rightarrow>
                  (Fatal ''TLA in go modules is not supported in k6 at the moment'', w1)))"

text \<open>Lines 62 to 72 of \<open>Require\<close>: the parent module from the call stack, then the module.\<close>

definition requireResolve ::
  "environment \<Rightarrow> string \<Rightarrow> world \<Rightarrow> (ModuleRecord \<times> error option) outcome \<times> world" where
  "requireResolve env specifier w =
     (case getCurrentModuleScript (callStack w) of
        Panic msg \<Rightarrow> (Panic msg, w)
      | Return s1 \<Rightarrow>
          (case getPreviousRequiringFile (callStack w) of
             Panic msg \<Rightarrow> (Panic msg, w)
           | Return s2 \<Rightarrow>
               (let w1 = (if s1 \<noteq> s2 then w\<lparr>warnings := warnings w @ [(specifier, s1, s2)]\<rparr>
                          else w);
                    parentModuleStr = (if s1 \<noteq> s2 then s2 else s1)
                in case gojaModuleResolver env NilModule parentModuleStr (resolver w1) of
                     (Panic msg, mr1) \<Rightarrow> (Panic msg, w1\<lparr>resolver := mr1\<rparr>)
                   | (Return (parentModule, ignored), mr1) \<Rightarrow>
                       (case gojaModuleResolver env parentModule specifier mr1 of
                          (Panic msg, mr2) \<Rightarrow> (Panic msg, w1\<lparr>resolver := mr2\<rparr>)
                        | (Return me, mr2) \<Rightarrow> (Return me, w1\<lparr>resolver := mr2\<rparr>)))))"

text \<open>Lines 76 to 84: the resolved module is a \<open>*goModule\<close>.\<close>

definition requireGoModule :: "engine \<Rightarrow> ModuleRecord \<Rightarrow> world \<Rightarrow> requireValue result \<times> world" where
  "requireGoModule eng wm w =
     (case getModuleInstanceFromGoModule eng wm w of
        (Fatal msg, w1) \<Rightarrow> (Fatal msg, w1)
      | (Err e, w1) \<Rightarrow> (Err e, w1)
      | (Ok gmi, w1) \<Rightarrow> (Ok (Bridged (toESModuleExports (gmi_mi gmi))), w1))"

text \<open>Lines 104 to 107: what a module that is not a \<open>*goModule\<close> gives back.\<close>

definition requireExports :: "ModuleRecord \<Rightarrow> world \<Rightarrow> requireValue result \<times> world" where
  "requireExports m w =
     (case m of
        CjsModuleRec a p \<Rightarrow>
          (case instances w m of
             Some (CjsInstance cmi) \<Rightarrow> (Ok (ExportsObject (cmi_exports cmi)), w)
           | _ \<Rightarrow> (Fatal ''interface conversion: not a cjsModuleInstance'', w))
      | _ \<Rightarrow> (Ok (NamespaceObject m), w))"

text \<open>
  Lines 85 to 103: any other module is linked and evaluated. The \<open>switch\<close> on the
  promise's state sets \<open>err\<close> when it is rejected; its \<open>PromiseStateFulfilled\<close> and
  \<open>default\<close> cases are empty, so both go on with \<open>err\<close> nil.
\<close>

definition requireScript :: "engine \<Rightarrow> ModuleRecord \<Rightarrow> world \<Rightarrow> requireValue result \<times> world" where
  "requireScript eng m w =
     (case Link eng m w of
        (Panic msg, w1) \<Rightarrow> (Fatal msg, w1)
      | (Return (Some e), w1) \<Rightarrow> (Err e, w1)
      | (Return None, w1) \<Rightarrow>
          (let (st, w2) = CyclicModuleRecordEvaluate eng m w1 in
           case st of
             PromiseStateRejected None \<Rightarrow> (Fatal ''interface conversion: not an error'', w2)
           | PromiseStateRejected (Some e) \<Rightarrow> (Err e, w2)
           | PromiseStateFulfilled \<Rightarrow> requireExports m w2
           | PromiseStatePending \<Rightarrow> requireExports m w2))"

definition Require_body ::
  "environment \<Rightarrow> engine \<Rightarrow> string \<Rightarrow> world \<Rightarrow> requireValue result \<times> world" where
  "Require_body env eng specifier w =
     (if specifier = [] then (Err EmptySpecifier, w)
      else
        (case requireResolve env specifier w of
           (Panic msg, w1) \<Rightarrow> (Fatal msg, w1)
         | (Return (m, Some e), w1) \<Rightarrow> (Err e, w1)
         | (Return (m, None), w1) \<Rightarrow>
             (case m of
                GoModuleRec a k \<Rightarrow> requireGoModule eng m w1
              | _ \<Rightarrow> requireScript eng m w1)))"

text \<open>
  \<open>LegacyRequireImpl.Require\<close>. The deferred function restores the pointer however the
  call ends.
\<close>

definition Require ::
  "environment \<Rightarrow> engine \<Rightarrow> string \<Rightarrow> world \<Rightarrow> requireValue result \<times> world" where
  "Require env eng specifier w =
     (let currentPWD = currentlyRequiredModule w in
      if \<not> builtin specifier then
        (case loader_Resolve env (currentlyRequiredModule w) specifier of
           Inl e \<Rightarrow> (Err e, w\<lparr>currentlyRequiredModule := currentPWD\<rparr>)
         | Inr fileURL \<Rightarrow>
             (let (res, w1) =
                    Require_body env eng specifier
                      (w\<lparr>currentlyRequiredModule := loader_Dir env fileURL\<rparr>)
              in (res, w1\<lparr>currentlyRequiredModule := currentPWD\<rparr>)))
      else Require_body env eng specifier w)"

text \<open>\<open>ModuleSystem.RunSourceData\<close>; \<open>source\<close> is the URL and the data.\<close>

definition RunSourceData ::
  "environment \<Rightarrow> engine \<Rightarrow> url \<times> string \<Rightarrow> world \<Rightarrow> ModuleRecord result \<times> world" where
  "RunSourceData env eng source w =
     (let specifier = url_String env (fst source);
          pwd = url_JoinPath env (fst source) ''../''
      in case resolveLoaded env pwd specifier (snd source) (resolver w) of
           ((m0, Some e), mr1) \<Rightarrow> (Err e, w\<lparr>resolver := mr1\<rparr>)
         | ((m0, None), mr1) \<Rightarrow>
             (case resolve env pwd specifier mr1 of
                ((m, Some e), mr2) \<Rightarrow> (Err e, w\<lparr>resolver := mr2\<rparr>)
              | ((m, None), mr2) \<Rightarrow>
                  (case Link eng m (w\<lparr>resolver := mr2\<rparr>) of
                     (Panic msg, w1) \<Rightarrow> (Fatal msg, w1)
                   | (Return (Some e), w1) \<Rightarrow> (Err e, w1)
                   | (Return None, w1) \<Rightarrow>
                       (let (st, w2) = CyclicModuleRecordEvaluate eng m w1 in
                        case st of
                          PromiseStateRejected (Some e) \<Rightarrow> (Err e, w2)
                        | PromiseStateRejected None \<Rightarrow>
                            (Fatal ''interface conversion: not an error'', w2)
                        | PromiseStateFulfilled \<Rightarrow> (Ok m, w2)
                        | PromiseStatePending \<Rightarrow>
                            (Fatal ''TLA not supported in k6 at the moment'', w2)))))"

section \<open>Concrete modules, engines and runs\<close>

definition demoGoModule :: goModule where
  "demoGoModule =
     \<lparr>gm_m = (\<lambda>vu. \<lparr>Named = Some [(''x'', GoInt 1), (''y'', GoInt 2)], Default = GoNil\<rparr>),
      gm_once = False, gm_exportedNames = []\<rparr>"

definition demoToValue :: toValue where
  "demoToValue g rt =
     (case g of GoInt n \<Rightarrow> (JSNum n, rt) | GoBool b \<Rightarrow> (JSBool b, rt)
      | GoString s \<Rightarrow> (JSStr s, rt) | _ \<Rightarrow> (Null, rt))"

definition demoConv :: "goval \<Rightarrow> jsval" where
  "demoConv g = fst (demoToValue g \<lparr>objs = []\<rparr>)"

definition demoInstance :: goModuleInstance where
  "demoInstance =
     \<lparr>gmi_mi = \<lparr>Named = Some [(''x'', GoInt 1), (''y'', GoInt 2)], Default = GoNil\<rparr>,
      gmi_defaultExport = None\<rparr>"

text \<open>
  A small file system and its collaborators: paths resolve against a directory, the
  empty specifier is refused, \<open>/a/missing.js\<close> does not exist, \<open>/a/broken.js\<close> does not
  parse, \<open>/a/esm.js\<close> is an ES module, every other file a CommonJS module.
\<close>

definition demoResolve :: "url \<Rightarrow> string \<Rightarrow> error + url" where
  "demoResolve pwd spec =
     (if spec = [] then Inl (Collaborator ''local or remote path required'')
      else if take 2 spec = ''./'' then Inr (URL (Scheme pwd) (Host pwd) (Path pwd @ drop 2 spec))
      else if take 1 spec = ''/'' then Inr (URL (Scheme pwd) (Host pwd) spec)
      else if take 7 spec = ''file://'' then Inr (URL ''file'' [] (drop 7 spec))
      else Inr (URL [] [] spec))"

definition demoDir :: "url \<Rightarrow> url" where
  "demoDir u = URL (Scheme u) (Host u) (rev (dropWhile (\<lambda>c. c \<noteq> CHR ''/'') (rev (Path u))))"

definition demoString :: "url \<Rightarrow> string" where
  "demoString u = Scheme u @ ''://'' @ Host u @ Path u"

definition demoLoad :: "url \<Rightarrow> string \<Rightarrow> error + string" where
  "demoLoad u arg =
     (if Path u = ''/a/missing.js'' then Inl (Collaborator ''file not found'')
      else if Path u = ''/a/broken.js'' then Inr ''syntax error''
      else if Path u = ''/a/esm.js'' then Inr ''import x''
      else Inr ''module.exports = 1'')"

definition demoParse :: "string \<Rightarrow> string \<Rightarrow> error + program \<times> bool" where
  "demoParse data name =
     (if data = ''syntax error'' then Inl (Collaborator ''SyntaxError'')
      else Inr (Program (length data), take 6 data = ''import''))"

definition demoEnv :: environment where
  "demoEnv =
     \<lparr>goModules = [''k6/demo'' \<mapsto> K6Module 0, ''k6/plain'' \<mapsto> Plain (GoString ''v'')],
      loadCJS = demoLoad,
      compiler_Parse = demoParse,
      compiler_Compile = (\<lambda>data name. Inr (Program (length data))),
      ModuleFromAST = (\<lambda>prg. None),
      base = URL ''file'' [] ''/a/'',
      loader_Resolve = demoResolve,
      loader_Dir = demoDir,
      url_String = demoString,
      url_JoinPath = (\<lambda>u s. demoDir u)\<rparr>"

text \<open>
  A runtime in the middle of \<open>/a/b.js\<close>, which has just called \<open>require\<close>, and an engine
  that fulfils every evaluation and registers an instance of the module.
\<close>

definition demoStack :: "StackFrame list" where
  "demoStack =
     [\<lparr>FuncName = ''go.k6.io/k6/js.(*requireImpl).require-fm'', SrcName = ''native''\<rparr>,
      \<lparr>FuncName = ''main'', SrcName = ''file:///a/b.js''\<rparr>]"

definition demoWorld :: world where
  "demoWorld =
     \<lparr>resolver = NewModuleResolver,
      currentlyRequiredModule = URL ''file'' [] ''/a/'',
      instances = Map.empty,
      callStack = demoStack,
      warnings = []\<rparr>"

definition demoExports :: Exports where
  "demoExports = \<lparr>Named = Some [(''x'', GoInt 1)], Default = GoString ''d''\<rparr>"

definition demoInstanceOf :: "ModuleRecord \<Rightarrow> ModuleInstance" where
  "demoInstanceOf m =
     (case m of
        GoModuleRec a k \<Rightarrow> GoInstance \<lparr>gmi_mi = demoExports, gmi_defaultExport = None\<rparr>
      | CjsModuleRec a p \<Rightarrow> CjsInstance \<lparr>cmi_exports = Some a, cmi_isEsModuleMarked = False\<rparr>
      | BaseGoModuleRec a x \<Rightarrow> BasicInstance \<lparr>bgmi_v = a\<rparr>
      | _ \<Rightarrow> EngineInstance)"

definition demoEvaluate :: "ModuleRecord \<Rightarrow> world \<Rightarrow> PromiseState \<times> world" where
  "demoEvaluate m w = (PromiseStateFulfilled, w\<lparr>instances := (instances w)(m \<mapsto> demoInstanceOf m)\<rparr>)"

definition demoEngine :: engine where
  "demoEngine =
     \<lparr>CyclicModuleRecordEvaluate = demoEvaluate,
      SourceTextModule_Link = (\<lambda>m w. (None, w))\<rparr>"

text \<open>An engine on which an ES module awaits at top level: its promise stays pending.\<close>

definition tlaEngine :: engine where
  "tlaEngine =
     \<lparr>CyclicModuleRecordEvaluate =
        (\<lambda>m w. case m of
                  SourceTextModuleRec a p \<Rightarrow> (PromiseStatePending, w)
                | _ \<Rightarrow> demoEvaluate m w),
      SourceTextModule_Link = (\<lambda>m w. (None, w))\<rparr>"

text \<open>
  An engine on which the body of \<open>/a/sub/c.js\<close> calls \<open>require("./d.js")\<close>: the call stack
  then has the frame of \<open>c.js\<close> above the first \<open>require\<close>.
\<close>

definition nestedStack :: "StackFrame list" where
  "nestedStack =
     [\<lparr>FuncName = ''go.k6.io/k6/js.(*requireImpl).require-fm'', SrcName = ''native''\<rparr>,
      \<lparr>FuncName = ''c'', SrcName = ''file:///a/sub/c.js''\<rparr>,
      \<lparr>FuncName = ''go.k6.io/k6/js.(*requireImpl).require-fm'', SrcName = ''native''\<rparr>,
      \<lparr>FuncName = ''main'', SrcName = ''file:///a/b.js''\<rparr>]"

definition nestedEngine :: engine where
  "nestedEngine =
     \<lparr>CyclicModuleRecordEvaluate =
        (\<lambda>m w. if mr_reverse (resolver w) m = Some (URL ''file'' [] ''/a/sub/c.js'') then
                  (let (res, w1) = Require demoEnv demoEngine ''./d.js'' (w\<lparr>callStack := nestedStack\<rparr>)
                   in demoEvaluate m (w1\<lparr>callStack := callStack w\<rparr>))
                else demoEvaluate m w),
      SourceTextModule_Link = (\<lambda>m w. (None, w))\<rparr>"

text \<open>
  A script engine with three wrapped programs (function objects 0, 1 and 2): the body of
  the first ends with \<open>module.exports = undefined\<close>, the second with
  \<open>module.exports = null\<close>, the third sets \<open>exports.a = 1\<close>. \<open>ToObject\<close> throws on
  \<open>undefined\<close> and \<open>null\<close>.
\<close>

definition demoBody :: "nat \<Rightarrow> jsval \<Rightarrow> jsval list \<Rightarrow> runtime \<Rightarrow> error option \<times> runtime" where
  "demoBody n this args rt =
     (case args of
        [JSObj module, JSObj ex] \<Rightarrow>
          (None,
           if n = 0 then Set_prop module ''exports'' Undefined rt
           else if n = 1 then Set_prop module ''exports'' Null rt
           else Set_prop ex ''a'' (JSNum 1) rt)
      | _ \<Rightarrow> (Some (Collaborator ''bad call''), rt))"

definition demoToObject :: "jsval \<Rightarrow> runtime \<Rightarrow> (nat \<times> runtime) outcome" where
  "demoToObject x rt =
     (case x of
        JSObj r \<Rightarrow> Return (r, rt)
      | Undefined \<Rightarrow> Panic ''TypeError: Cannot convert undefined or null to object''
      | Null \<Rightarrow> Panic ''TypeError: Cannot convert undefined or null to object''
      | _ \<Rightarrow> Return (NewObject rt))"

definition demoJs :: jsengine where
  "demoJs =
     \<lparr>RunProgram = (\<lambda>p rt. case p of Program n \<Rightarrow> (Inr (JSObj n), rt)),
      AssertFunction = (\<lambda>f. case f of JSObj n \<Rightarrow> Some (demoBody n) | _ \<Rightarrow> None),
      ToObject = demoToObject\<rparr>"

definition demoCjsModule :: "nat \<Rightarrow> cjsModule" where
  "demoCjsModule n = \<lparr>cm_prg = Program n, cm_main = False, cm_exportedNames = [], cm_o = False\<rparr>"

definition demoCjsInstance :: cjsModuleInstance where
  "demoCjsInstance = \<lparr>cmi_exports = None, cmi_isEsModuleMarked = False\<rparr>"

definition demoRuntime :: runtime where
  "demoRuntime = \<lparr>objs = [[], [], []]\<rparr>"

section \<open>Conforming host modules: exported names and the default export\<close>

lemma fold_append_names:
  "fold (\<lambda>(name, x) names. names @ [name]) nm acc = acc @ map fst nm"
  by (induction nm arbitrary: acc) (auto split: prod.splits)

lemma Instantiate_once: "gm_once gm \<Longrightarrow> snd (goModule_Instantiate gm vu) = gm"
  by (simp add: goModule_Instantiate_def Let_def)

lemma Instantiate_sets_once: "gm_once (snd (goModule_Instantiate gm vu))"
  by (simp add: goModule_Instantiate_def Let_def)

lemma instantiateAll_once: "gm_once gm \<Longrightarrow> instantiateAll gm vus = gm"
  unfolding instantiateAll_def
  by (induction vus) (simp_all add: Instantiate_once)

text \<open>
  C10. The first \<open>Instantiate\<close> of a conforming host module whose \<open>Named\<close> mapping has
  \<open>n > 0\<close> entries leaves an exported-names list of length \<open>2n\<close>: \<open>n\<close> empty strings (the
  slice is made with length \<open>n\<close>) followed by the \<open>n\<close> names appended to it. Whatever
  instantiations follow, \<open>GetExportedNames\<close> returns this list and changes nothing.
\<close>

theorem goModule_exportedNames_doubled:
  assumes "\<not> gm_once gm" and "Named (gm_m gm vu) = Some nm" and "0 < length nm"
  shows "(let gm1 = snd (goModule_Instantiate gm vu); names = gm_exportedNames gm1 in
           names = replicate (length nm) [] @ map fst nm
           \<and> length names = 2 * length nm
           \<and> take (length nm) names = replicate (length nm) []
           \<and> (\<forall>vus. goModule_GetExportedNames (instantiateAll gm1 vus)
                       = (Return names, instantiateAll gm1 vus)
                    \<and> gm_exportedNames (instantiateAll gm1 vus) = names))"
proof -
  define gm1 where "gm1 = snd (goModule_Instantiate gm vu)"
  have names: "gm_exportedNames gm1 = replicate (length nm) [] @ map fst nm"
    using assms by (simp add: gm1_def goModule_Instantiate_def Let_def fold_append_names)
  have once: "gm_once gm1"
    by (simp add: gm1_def Instantiate_sets_once)
  have later: "instantiateAll gm1 vus = gm1" for vus
    using once by (rule instantiateAll_once)
  have get: "goModule_GetExportedNames gm1 = (Return (gm_exportedNames gm1), gm1)"
    using once by (simp add: goModule_GetExportedNames_def)
  show ?thesis
    unfolding Let_def gm1_def [symmetric]
    using names later get by simp
qed

theorem goModule_exportedNames_doubled_witness:
  "gm_exportedNames (snd (goModule_Instantiate demoGoModule 0)) = [[], [], ''x'', ''y'']
   \<and> fst (goModule_GetExportedNames
            (instantiateAll (snd (goModule_Instantiate demoGoModule 0)) [1, 2]))
       = Return [[], [], ''x'', ''y'']"
  using goModule_exportedNames_doubled [of demoGoModule 0 "[(''x'', GoInt 1), (''y'', GoInt 2)]"]
  by (simp add: demoGoModule_def Let_def)

lemma setNamed_converts:
  assumes "converts tv conv"
  shows "r < length (objs rt) \<Longrightarrow>
     objs (setNamed tv r nm rt)
       = (objs rt)[r := fold (\<lambda>(k, x). AList.update k (conv x)) nm (objs rt ! r)]"
proof (induction nm arbitrary: rt)
  case Nil
  then show ?case by (simp add: setNamed_def)
next
  case (Cons p nm)
  obtain k x where p: "p = (k, x)" by (cases p)
  have tv: "tv x rt = (conv x, rt)" using assms by (simp add: converts_def)
  have step: "setNamed tv r (p # nm) rt = setNamed tv r nm (Set_prop r k (conv x) rt)"
    by (simp add: setNamed_def p tv)
  have len: "r < length (objs (Set_prop r k (conv x) rt))"
    using Cons.prems by (simp add: Set_prop_def)
  show ?case
    unfolding step Cons.IH [OF len]
    using Cons.prems by (simp add: Set_prop_def p)
qed

lemma map_of_fold_update:
  "distinct (map fst nm) \<Longrightarrow>
   map_of (fold (\<lambda>(k, x). AList.update k (f x)) nm al) name
     = (case map_of nm name of None \<Rightarrow> map_of al name | Some x \<Rightarrow> Some (f x))"
proof (induction nm arbitrary: al)
  case Nil
  then show ?case by simp
next
  case (Cons p nm)
  obtain k x where p: "p = (k, x)" by (cases p)
  have notin: "map_of nm k = None"
    using Cons.prems by (simp add: p map_of_eq_None_iff)
  show ?case
    using Cons.prems notin
    by (auto simp: p Cons.IH update_conv split: option.splits)
qed

lemma demo_converts: "converts demoToValue demoConv"
  by (auto simp: converts_def demoToValue_def demoConv_def split: goval.splits)

text \<open>
  C5. An instance whose \<open>Exports\<close> has no \<open>Default\<close> and a non-empty \<open>Named\<close> mapping, read
  for its default for the first time: the read makes one new object (no object of the
  runtime before the read), memoizes it, and every later read, in whatever state of the
  runtime, returns this object and changes nothing, so nothing is derived again. With an
  engine whose \<open>ToValue\<close> is \<open>conv\<close> and a mapping with distinct names, the object is the
  only allocation and holds exactly the named entries, converted.
\<close>

theorem getDefaultExport_memoized:
  assumes "Default (gmi_mi gmi) = GoNil" and "Named (gmi_mi gmi) = Some nm" and "nm \<noteq> []"
    and "gmi_defaultExport gmi = None"
  shows "(let r = length (objs rt); (d, gmi1, rt1) = getDefaultExport tv gmi rt in
           d = JSObj r
           \<and> gmi_defaultExport gmi1 = Some (JSObj r)
           \<and> gmi_mi gmi1 = gmi_mi gmi
           \<and> (\<forall>rt2. getDefaultExport tv gmi1 rt2 = (JSObj r, gmi1, rt2))
           \<and> (\<forall>rt2. goModuleInstance_GetBindingValue tv toObj gmi1 ''default'' rt2
                       = (Return (Some (JSObj r)), gmi1, rt2))
           \<and> (converts tv conv \<and> distinct (map fst nm) \<longrightarrow>
                length (objs rt1) = Suc r
                \<and> (\<forall>name. Get_prop r name rt1 = map_option conv (map_of nm name))))"
proof -
  define r where "r = length (objs rt)"
  define rt0 where "rt0 = rt\<lparr>objs := objs rt @ [[]]\<rparr>"
  define gmi1 where "gmi1 = gmi\<lparr>gmi_defaultExport := Some (JSObj r)\<rparr>"
  define rt1 where "rt1 = setNamed tv r nm rt0"
  have first: "getDefaultExport tv gmi rt = (JSObj r, gmi1, rt1)"
    using assms
    by (simp add: getDefaultExport_def NewObject_def Let_def r_def rt0_def gmi1_def rt1_def)
  have again: "getDefaultExport tv gmi1 rt2 = (JSObj r, gmi1, rt2)" for rt2
    by (simp add: getDefaultExport_def gmi1_def)
  have binding: "goModuleInstance_GetBindingValue tv toObj gmi1 ''default'' rt2
                   = (Return (Some (JSObj r)), gmi1, rt2)" for rt2
    by (simp add: goModuleInstance_GetBindingValue_def again)
  have agg: "length (objs rt1) = Suc r
             \<and> (\<forall>name. Get_prop r name rt1 = map_option conv (map_of nm name))"
    if c: "converts tv conv" and d: "distinct (map fst nm)"
  proof -
    have lt: "r < length (objs rt0)" by (simp add: r_def rt0_def)
    have o: "objs rt1
               = (objs rt0)[r := fold (\<lambda>(k, x). AList.update k (conv x)) nm (objs rt0 ! r)]"
      unfolding rt1_def by (rule setNamed_converts [OF c lt])
    have e: "objs rt0 ! r = []" by (simp add: r_def rt0_def)
    show ?thesis
      using lt by (simp add: o e Get_prop_def map_of_fold_update [OF d] r_def rt0_def
          split: option.splits)
  qed
  show ?thesis
    unfolding Let_def r_def [symmetric] first
    using again binding agg by (simp add: gmi1_def)
qed

theorem getDefaultExport_memoized_witness:
  "fst (getDefaultExport demoToValue demoInstance \<lparr>objs = []\<rparr>) = JSObj 0
   \<and> fst (getDefaultExport demoToValue
            (fst (snd (getDefaultExport demoToValue demoInstance \<lparr>objs = []\<rparr>)))
            (snd (snd (getDefaultExport demoToValue demoInstance \<lparr>objs = []\<rparr>)))) = JSObj 0
   \<and> Get_prop 0 ''x'' (snd (snd (getDefaultExport demoToValue demoInstance \<lparr>objs = []\<rparr>)))
       = Some (JSNum 1)
   \<and> Get_prop 0 ''y'' (snd (snd (getDefaultExport demoToValue demoInstance \<lparr>objs = []\<rparr>)))
       = Some (JSNum 2)
   \<and> Get_prop 0 ''z'' (snd (snd (getDefaultExport demoToValue demoInstance \<lparr>objs = []\<rparr>)))
       = None"
  using getDefaultExport_memoized [of demoInstance "[(''x'', GoInt 1), (''y'', GoInt 2)]"
      "\<lparr>objs = []\<rparr>" demoToValue "\<lambda>d rt. Panic []" demoConv] demo_converts
  by (simp add: demoInstance_def Let_def demoConv_def demoToValue_def split: prod.splits)

section \<open>Host modules that are not conforming: the bindings\<close>

text \<open>
  C9, as the code has it. The binding \<open>default\<close> of a non-conforming host module is always
  the whole wrapped object, also when the object has a property named \<open>default\<close>; every
  other name reads the property of that name. The exported names, set by the first
  \<open>Instantiate\<close>, are the object's keys.
\<close>

theorem basic_default_is_whole_value:
  "basicGoModuleInstance_GetBindingValue bgmi ''default'' rt = Some (JSObj (bgmi_v bgmi))
   \<and> basicGoModuleInstance_GetBindingValue bgmi n rt
       = (if n = ''default'' then Some (JSObj (bgmi_v bgmi)) else Get_prop (bgmi_v bgmi) n rt)
   \<and> (let (bgmi1, bgm1, rt1) = baseGoModule_Instantiate tvo bgm rt in
        bgmi_v bgmi1 = fst (tvo (bgm_m bgm) rt)
        \<and> bgm_exportedNames bgm1
            = (if bgm_once bgm then bgm_exportedNames bgm else Keys (bgmi_v bgmi1) rt1))"
  by (simp add: basicGoModuleInstance_GetBindingValue_def baseGoModule_Instantiate_def
      Let_def split: prod.splits)

text \<open>
  The claim C9 as the spec words it fails: on an object with a property \<open>default\<close> the
  binding \<open>default\<close> is the object, not the property.
\<close>

theorem basic_default_property_counterexample:
  "Get_prop 0 ''default'' \<lparr>objs = [[(''default'', JSNum 1), (''a'', JSNum 2)]]\<rparr> = Some (JSNum 1)
   \<and> basicGoModuleInstance_GetBindingValue \<lparr>bgmi_v = 0\<rparr> ''default''
        \<lparr>objs = [[(''default'', JSNum 1), (''a'', JSNum 2)]]\<rparr> = Some (JSObj 0)
   \<and> basicGoModuleInstance_GetBindingValue \<lparr>bgmi_v = 0\<rparr> ''default''
        \<lparr>objs = [[(''default'', JSNum 1), (''a'', JSNum 2)]]\<rparr> \<noteq> Some (JSNum 1)"
  by (simp add: basicGoModuleInstance_GetBindingValue_def Get_prop_def)

section \<open>CommonJS modules: the final exports\<close>

lemma cjs_readExports_null:
  "Get_prop module ''exports'' rt5 = Some Null \<Longrightarrow>
   cjs_readExports je cmi1 cm module rt5 = (Err ExportsMustBeObject, cmi1, cm, rt5)"
  by (simp add: cjs_readExports_def IsNull_def)

lemma cjs_readExports_undefined:
  "Get_prop module ''exports'' rt5 = Some Undefined \<Longrightarrow>
   fst (cjs_readExports je cmi1 cm module rt5)
     = (case ToObject je Undefined rt5 of Panic msg \<Rightarrow> Fatal msg | Return p \<Rightarrow> Ok ())"
  by (simp add: cjs_readExports_def IsNull_def Let_def split: outcome.splits prod.splits)

text \<open>
  C6. A CommonJS module whose body ends with \<open>module.exports = undefined\<close>: the final
  value is nullish, but \<open>ExecuteModule\<close> does not fail with the error
  \<open>exports must be an object\<close>; it goes on to \<open>ToObject\<close> of \<open>undefined\<close>, which throws in
  the engine. Only the final value \<open>null\<close> gives the error.
\<close>

theorem ExecuteModule_undefined_exports:
  "fst (cjs_ExecuteModule demoJs demoCjsInstance (demoCjsModule 0) demoRuntime)
     = Fatal ''TypeError: Cannot convert undefined or null to object''
   \<and> fst (cjs_ExecuteModule demoJs demoCjsInstance (demoCjsModule 1) demoRuntime)
     = Err ExportsMustBeObject"
  by (simp add: cjs_ExecuteModule_def cjs_readExports_def demoJs_def demoCjsInstance_def demoCjsModule_def
      demoRuntime_def demoBody_def demoToObject_def NewObject_def Set_prop_def Get_prop_def
      IsNull_def Let_def)

section \<open>The resolver: one record per locator, failures cached\<close>

lemmas resolver_defs =
  resolve_def resolveLoaded_def requireModule_def cjsModuleFromString_def
  gojaModuleFromAST_def resolveSpecifier_def

lemma resolveLoaded_caches:
  "resolveSpecifier env pwd arg = Inr u \<Longrightarrow>
   mr_cache (snd (resolveLoaded env pwd arg data mr)) (url_String env u)
     = Some \<lparr>ce_mod = fst (fst (resolveLoaded env pwd arg data mr)),
             ce_err = snd (fst (resolveLoaded env pwd arg data mr))\<rparr>"
  by (auto simp: resolver_defs Let_def split: sum.splits option.splits prod.splits native.splits)

lemma resolve_caches:
  "\<not> builtin arg \<Longrightarrow> resolveSpecifier env pwd arg = Inr u \<Longrightarrow>
   mr_cache (snd (resolve env pwd arg mr)) (url_String env u)
     = Some \<lparr>ce_mod = fst (fst (resolve env pwd arg mr)),
             ce_err = snd (fst (resolve env pwd arg mr))\<rparr>"
  by (auto simp: resolver_defs Let_def split: sum.splits option.splits prod.splits native.splits)

lemma resolve_builtin_caches:
  "builtin arg \<Longrightarrow>
   mr_cache (snd (resolve env pwd arg mr)) arg
     = Some \<lparr>ce_mod = fst (fst (resolve env pwd arg mr)),
             ce_err = snd (fst (resolve env pwd arg mr))\<rparr>"
  by (auto simp: resolver_defs Let_def split: sum.splits option.splits prod.splits native.splits)

lemma resolve_hit:
  "\<not> builtin arg \<Longrightarrow> resolveSpecifier env pwd arg = Inr u \<Longrightarrow>
   mr_cache mr (url_String env u) = Some c \<Longrightarrow>
   resolve env pwd arg mr = ((ce_mod c, ce_err c), mr)"
  by (simp add: resolve_def Let_def)

lemma resolve_builtin_hit:
  "builtin arg \<Longrightarrow> mr_cache mr arg = Some c \<Longrightarrow>
   resolve env pwd arg mr = ((ce_mod c, ce_err c), mr)"
  by (simp add: resolve_def Let_def)






lemmas demo_defs =
  demoEnv_def demoResolve_def demoDir_def demoString_def demoLoad_def demoParse_def
  NewModuleResolver_def builtin_def





text \<open>
  C3, as the code has it. A resolution that fails for a built-in name, or for a specifier
  that canonicalizes (so: an unknown built-in name, a load failure, a parse or compile
  failure), leaves its outcome in the cache under the built-in name or the locator's
  string, and resolving the same specifier again returns the same error and changes
  nothing: nothing is loaded or compiled again. A specifier that does not canonicalize
  has no locator: its error is returned and the resolver is left as it was, cache
  included.
\<close>

theorem resolve_failure_cached:
  "((builtin arg \<or> resolveSpecifier env pwd arg = Inr u)
      \<and> resolve env pwd arg mr = ((m, Some e), mr1)
    \<longrightarrow> mr_cache mr1 (if builtin arg then arg else url_String env u)
          = Some \<lparr>ce_mod = m, ce_err = Some e\<rparr>
        \<and> resolve env pwd arg mr1 = ((m, Some e), mr1))
   \<and> (\<not> builtin arg \<and> resolveSpecifier env pwd arg = Inl e'
    \<longrightarrow> resolve env pwd arg mr = ((NilModule, Some e'), mr))"
proof (intro conjI impI)
  assume h: "(builtin arg \<or> resolveSpecifier env pwd arg = Inr u)
      \<and> resolve env pwd arg mr = ((m, Some e), mr1)"
  show c: "mr_cache mr1 (if builtin arg then arg else url_String env u)
          = Some \<lparr>ce_mod = m, ce_err = Some e\<rparr>"
  proof (cases "builtin arg")
    case True
    then show ?thesis using resolve_builtin_caches [OF True, of env pwd mr] h by simp
  next
    case False
    then have "resolveSpecifier env pwd arg = Inr u" using h by simp
    then show ?thesis using resolve_caches [OF False, of env pwd u mr] h False by simp
  qed
  show "resolve env pwd arg mr1 = ((m, Some e), mr1)"
  proof (cases "builtin arg")
    case True
    then show ?thesis using resolve_builtin_hit [OF True, of mr1 _ env pwd] c by simp
  next
    case False
    then have "resolveSpecifier env pwd arg = Inr u" using h by simp
    then show ?thesis using resolve_hit [OF False, of env pwd u mr1] c False by simp
  qed
next
  assume "\<not> builtin arg \<and> resolveSpecifier env pwd arg = Inl e'"
  then show "resolve env pwd arg mr = ((NilModule, Some e'), mr)"
    by (simp add: resolve_def)
qed

theorem resolve_failure_cached_witness:
  "fst (resolve demoEnv (URL ''file'' [] ''/a/'') ''./missing.js'' NewModuleResolver)
     = (NilModule, Some (Collaborator ''file not found''))
   \<and> resolve demoEnv (URL ''file'' [] ''/a/'') ''./missing.js''
        (snd (resolve demoEnv (URL ''file'' [] ''/a/'') ''./missing.js'' NewModuleResolver))
     = ((NilModule, Some (Collaborator ''file not found'')),
        snd (resolve demoEnv (URL ''file'' [] ''/a/'') ''./missing.js'' NewModuleResolver))
   \<and> resolve demoEnv (URL ''file'' [] ''/a/'') [] NewModuleResolver
     = ((NilModule, Some (Collaborator ''local or remote path required'')), NewModuleResolver)"
proof -
  have first: "fst (resolve demoEnv (URL ''file'' [] ''/a/'') ''./missing.js'' NewModuleResolver)
     = (NilModule, Some (Collaborator ''file not found''))"
    by (simp add: resolver_defs demo_defs Let_def)
  have can: "resolveSpecifier demoEnv (URL ''file'' [] ''/a/'') ''./missing.js''
     = Inr (URL ''file'' [] ''/a/missing.js'')"
    by (simp add: resolveSpecifier_def demo_defs)
  have bad: "resolveSpecifier demoEnv (URL ''file'' [] ''/a/'') [] 
     = Inl (Collaborator ''local or remote path required'')"
    by (simp add: resolveSpecifier_def demo_defs)
  have nb: "\<not> builtin []" by (simp add: builtin_def)
  have pair: "resolve demoEnv (URL ''file'' [] ''/a/'') ''./missing.js'' NewModuleResolver
     = ((NilModule, Some (Collaborator ''file not found'')),
        snd (resolve demoEnv (URL ''file'' [] ''/a/'') ''./missing.js'' NewModuleResolver))"
    using first by (simp add: prod_eq_iff)
  show ?thesis
    using resolve_failure_cached [of "''./missing.js''" demoEnv "URL ''file'' [] ''/a/''"
        "URL ''file'' [] ''/a/missing.js''" NewModuleResolver NilModule
        "Collaborator ''file not found''"
        "snd (resolve demoEnv (URL ''file'' [] ''/a/'') ''./missing.js'' NewModuleResolver)"]
      resolve_failure_cached [of "[]" demoEnv "URL ''file'' [] ''/a/''" _ NewModuleResolver _ _ _
        "Collaborator ''local or remote path required''"]
      first can bad nb pair
    by simp
qed

text \<open>
  The claim C3 as the spec words it fails for a malformed specifier: the empty specifier
  does not canonicalize here, the error is returned, and the cache stays empty.
\<close>

theorem malformed_specifier_not_cached_counterexample:
  "fst (resolve demoEnv (URL ''file'' [] ''/a/'') [] NewModuleResolver)
     = (NilModule, Some (Collaborator ''local or remote path required''))
   \<and> (\<forall>k. mr_cache (snd (resolve demoEnv (URL ''file'' [] ''/a/'') [] NewModuleResolver)) k = None)
   \<and> snd (resolve demoEnv (URL ''file'' [] ''/a/'') [] NewModuleResolver) = NewModuleResolver"
  by (simp add: resolver_defs demo_defs Let_def)

section \<open>The legacy \<open>require\<close>\<close>

lemmas require_defs =
  Require_def Require_body_def requireResolve_def requireGoModule_def requireScript_def
  requireExports_def getModuleInstanceFromGoModule_def Link_def gojaModuleResolver_def
  reversePath_def getCurrentModuleScript_def getPreviousRequiringFile_def requireFuncName_def

lemmas demo_world_defs =
  demoWorld_def demoStack_def demoEngine_def demoEvaluate_def demoInstanceOf_def
  demoExports_def tlaEngine_def

lemma getModuleInstanceFromGoModule_pending:
  "instances w wm = None \<Longrightarrow> fst (CyclicModuleRecordEvaluate eng wm w) = PromiseStatePending \<Longrightarrow>
   fst (getModuleInstanceFromGoModule eng wm w)
     = Fatal ''TLA in go modules is not supported in k6 at the moment''"
  by (cases "CyclicModuleRecordEvaluate eng wm w")
     (simp add: getModuleInstanceFromGoModule_def Let_def)

lemma RunSourceData_pending:
  assumes "\<forall>m s. fst (CyclicModuleRecordEvaluate eng m s) = PromiseStatePending"
  shows "fst (RunSourceData env eng src w) \<noteq> Ok m'"
proof -
  have p: "st = PromiseStatePending" if "CyclicModuleRecordEvaluate eng m s = (st, s')"
    for m s st s'
    using assms that by (metis fst_conv)
  show ?thesis
    by (auto simp: RunSourceData_def Let_def dest: p
        split: prod.splits option.splits outcome.splits PromiseState.splits)
qed

lemma requireScript_pending:
  "Link eng m w = (Return None, w1) \<Longrightarrow>
   CyclicModuleRecordEvaluate eng m w1 = (PromiseStatePending, w2) \<Longrightarrow>
   requireScript eng m w = requireExports m w2"
  by (simp add: requireScript_def)

text \<open>
  C2. A \<open>require\<close> of an ES module whose evaluation promise stays pending (a top-level
  await) returns normally, with the namespace object of the module: the \<open>switch\<close> in
  \<open>Require\<close> has an empty \<open>default\<close> case. The root run and the host modules panic there
  (\<open>RunSourceData_pending\<close>, \<open>getModuleInstanceFromGoModule_pending\<close>).
\<close>

theorem Require_pending_returns:
  "fst (Require demoEnv tlaEngine ''./esm.js'' demoWorld)
     = Ok (NamespaceObject (SourceTextModuleRec 1 (Program 8)))"
  by (simp add: require_defs resolver_defs demo_defs demo_world_defs Let_def)

text \<open>
  What \<open>Require\<close> does with the empty specifier, on any state: it is outside the built-in
  namespace, so \<open>loader.Resolve\<close> is called on it first; the error of that call is
  returned when it fails, and the check for the empty specifier is reached only when it
  succeeds. Either way the state is left as it was.
\<close>

lemma Require_empty_resolves_first:
  "Require env eng [] w
     = (case loader_Resolve env (currentlyRequiredModule w) [] of
          Inl e \<Rightarrow> (Err e, w)
        | Inr fileURL \<Rightarrow> (Err EmptySpecifier, w))"
  by (simp add: Require_def Require_body_def builtin_def split: sum.splits)

text \<open>
  C7. A \<open>require\<close> of the empty specifier is not rejected at once with the
  empty-specifier error: the check \<open>specifier == ""\<close> stands after the block that
  canonicalizes the specifier, so with a \<open>loader.Resolve\<close> that refuses the empty
  specifier the call has done that resolution work first and returns its error, never
  the error of the check.
\<close>

theorem Require_empty_specifier_preempted:
  "loader_Resolve demoEnv (currentlyRequiredModule demoWorld) []
     = Inl (Collaborator ''local or remote path required'')
   \<and> fst (Require demoEnv demoEngine [] demoWorld)
     = Err (Collaborator ''local or remote path required'')
   \<and> fst (Require demoEnv demoEngine [] demoWorld) \<noteq> Err EmptySpecifier"
  by (simp add: Require_def Require_body_def demo_defs demo_world_defs)

lemma toESModuleExports_both:
  assumes "Named exp = Some nm" and "Default exp \<noteq> GoNil" and "distinct (map fst nm)"
  shows "\<exists>res. toESModuleExports exp = GoMap res
           \<and> (\<forall>k. map_of res k
                  = (if k = ''__esModule'' then Some (GoBool True)
                     else if k = ''default'' then Some (Default exp)
                     else map_of nm k))"
proof -
  define body where "body = fold (\<lambda>(k, x) res. AList.update k x res) nm []"
  have m: "map_of body name = map_of nm name" for name
    using map_of_fold_update [OF assms(3), of "\<lambda>y. y" "[]" name]
    by (simp add: body_def split: option.splits)
  have r: "toESModuleExports exp
             = GoMap (AList.update ''__esModule'' (GoBool True)
                        (AList.update ''default'' (Default exp) body))"
    using assms by (simp add: toESModuleExports_def Let_def body_def)
  show ?thesis
    unfolding r by (rule exI, rule conjI, rule refl) (simp add: update_conv m)
qed

text \<open>
  C8, as the code has it. A \<open>require\<close> of a built-in name that resolves to a conforming
  host module with an instance returns the object of the Go value bridged from the
  instance's \<open>Exports\<close>: the default when the \<open>Named\<close> mapping is nil; the mapping when
  the default is nil; otherwise a new map that holds \<open>__esModule\<close> as true, \<open>default\<close> as
  the default, and under every other name what the mapping holds (a named entry called
  \<open>default\<close> or \<open>__esModule\<close> is overwritten).
\<close>

theorem Require_bridges_exports:
  "(Named exp = None \<longrightarrow> toESModuleExports exp = Default exp)
   \<and> (Named exp = Some nm \<and> Default exp = GoNil \<longrightarrow> toESModuleExports exp = GoMap nm)
   \<and> (Named exp = Some nm \<and> Default exp \<noteq> GoNil \<and> distinct (map fst nm) \<longrightarrow>
        (\<exists>res. toESModuleExports exp = GoMap res
           \<and> (\<forall>k. map_of res k
                  = (if k = ''__esModule'' then Some (GoBool True)
                     else if k = ''default'' then Some (Default exp)
                     else map_of nm k))))
   \<and> (builtin specifier
        \<and> requireResolve env specifier w = (Return (GoModuleRec a k, None), w1)
        \<and> getModuleInstanceFromGoModule eng (GoModuleRec a k) w1 = (Ok gmi, w2) \<longrightarrow>
        Require env eng specifier w = (Ok (Bridged (toESModuleExports (gmi_mi gmi))), w2))"
proof (intro conjI impI)
  show "toESModuleExports exp = Default exp" if "Named exp = None"
    using that by (simp add: toESModuleExports_def)
  show "toESModuleExports exp = GoMap nm" if "Named exp = Some nm \<and> Default exp = GoNil"
    using that by (simp add: toESModuleExports_def)
  show "\<exists>res. toESModuleExports exp = GoMap res
           \<and> (\<forall>k. map_of res k
                  = (if k = ''__esModule'' then Some (GoBool True)
                     else if k = ''default'' then Some (Default exp)
                     else map_of nm k))"
    if "Named exp = Some nm \<and> Default exp \<noteq> GoNil \<and> distinct (map fst nm)"
    using that toESModuleExports_both by blast
  show "Require env eng specifier w = (Ok (Bridged (toESModuleExports (gmi_mi gmi))), w2)"
    if h: "builtin specifier
        \<and> requireResolve env specifier w = (Return (GoModuleRec a k, None), w1)
        \<and> getModuleInstanceFromGoModule eng (GoModuleRec a k) w1 = (Ok gmi, w2)"
  proof -
    have ne: "specifier \<noteq> []" using h by (auto simp: builtin_def)
    show ?thesis
      using h ne by (simp add: Require_def Require_body_def requireGoModule_def)
  qed
qed

theorem Require_bridges_exports_witness:
  "builtin ''k6/demo''
   \<and> Require demoEnv demoEngine ''k6/demo'' demoWorld
       = (Ok (Bridged (toESModuleExports demoExports)),
          snd (Require demoEnv demoEngine ''k6/demo'' demoWorld))
   \<and> toESModuleExports demoExports
       = GoMap [(''x'', GoInt 1), (''default'', GoString ''d''), (''__esModule'', GoBool True)]
   \<and> toESModuleExports \<lparr>Named = Some [(''x'', GoInt 1)], Default = GoNil\<rparr> = GoMap [(''x'', GoInt 1)]
   \<and> toESModuleExports \<lparr>Named = None, Default = GoString ''d''\<rparr> = GoString ''d''"
proof -
  have b: "builtin ''k6/demo''" by (simp add: builtin_def)
  define w1 where "w1 = snd (requireResolve demoEnv ''k6/demo'' demoWorld)"
  have r: "requireResolve demoEnv ''k6/demo'' demoWorld = (Return (GoModuleRec 1 0, None), w1)"
    unfolding w1_def
    by (simp add: require_defs resolver_defs demo_defs demo_world_defs Let_def prod_eq_iff)
  have i: "instances w1 (GoModuleRec 1 0) = None"
    unfolding w1_def
    by (simp add: require_defs resolver_defs demo_defs demo_world_defs Let_def)
  define w2 where "w2 = snd (getModuleInstanceFromGoModule demoEngine (GoModuleRec 1 0) w1)"
  have g: "getModuleInstanceFromGoModule demoEngine (GoModuleRec 1 0) w1
             = (Ok \<lparr>gmi_mi = demoExports, gmi_defaultExport = None\<rparr>, w2)"
    unfolding w2_def using i
    by (simp add: getModuleInstanceFromGoModule_def demoEngine_def demoEvaluate_def
        demoInstanceOf_def Let_def)
  have e: "distinct (map fst [(''x'', GoInt 1)])" by simp
  have req: "Require demoEnv demoEngine ''k6/demo'' demoWorld
               = (Ok (Bridged (toESModuleExports demoExports)), w2)"
    using Require_bridges_exports [of demoExports "[(''x'', GoInt 1)]" "''k6/demo''" demoEnv
        demoWorld 1 0 w1 demoEngine "\<lparr>gmi_mi = demoExports, gmi_defaultExport = None\<rparr>" w2]
      b r g by simp
  show ?thesis
    using b req by (simp add: toESModuleExports_def demoExports_def Let_def)
qed

text \<open>
  The claim C8 as the spec words it fails for a mapping with an entry named \<open>default\<close>:
  the new object does not contain that named entry.
\<close>

theorem Require_bridges_exports_counterexample:
  "Named \<lparr>Named = Some [(''default'', GoInt 1)], Default = GoInt 2\<rparr> = Some [(''default'', GoInt 1)]
   \<and> toESModuleExports \<lparr>Named = Some [(''default'', GoInt 1)], Default = GoInt 2\<rparr>
       = GoMap [(''default'', GoInt 2), (''__esModule'', GoBool True)]
   \<and> map_of [(''default'', GoInt 2), (''__esModule'', GoBool True)] ''default'' \<noteq> Some (GoInt 1)"
  by (simp add: toESModuleExports_def Let_def)

lemma requireResolve_pointer:
  "currentlyRequiredModule (snd (requireResolve env specifier w)) = currentlyRequiredModule w"
  by (simp add: requireResolve_def Let_def split: outcome.splits prod.splits)

lemma Link_pointer:
  assumes "\<forall>m s. currentlyRequiredModule (snd (SourceTextModule_Link eng m s))
                    = currentlyRequiredModule s"
  shows "currentlyRequiredModule (snd (Link eng m w)) = currentlyRequiredModule w"
proof -
  have "currentlyRequiredModule (snd (SourceTextModule_Link eng m w)) = currentlyRequiredModule w"
    using assms by blast
  then show ?thesis
    by (cases m) (auto simp: Link_def split: prod.splits)
qed

lemma Require_body_agree:
  assumes keep: "\<forall>m s. currentlyRequiredModule (snd (SourceTextModule_Link eng m s))
                    = currentlyRequiredModule s"
    and agree: "\<forall>m s. currentlyRequiredModule s = D \<longrightarrow>
                   CyclicModuleRecordEvaluate eng' m s = CyclicModuleRecordEvaluate eng m s
                   \<and> SourceTextModule_Link eng' m s = SourceTextModule_Link eng m s"
    and at: "currentlyRequiredModule w = D"
  shows "Require_body env eng' specifier w = Require_body env eng specifier w"
proof -
  have ev: "CyclicModuleRecordEvaluate eng' m s = CyclicModuleRecordEvaluate eng m s"
    if "currentlyRequiredModule s = D" for m s
    using agree that by blast
  have ln: "Link eng' m s = Link eng m s" if "currentlyRequiredModule s = D" for m s
  proof -
    have "SourceTextModule_Link eng' m s = SourceTextModule_Link eng m s"
      using agree that by blast
    then show ?thesis by (cases m) (simp_all add: Link_def)
  qed
  have go: "requireGoModule eng' m s = requireGoModule eng m s"
    if "currentlyRequiredModule s = D" for m s
    using ev [OF that, of m]
    by (cases "instances s m") (simp_all add: requireGoModule_def getModuleInstanceFromGoModule_def)
  have sc: "requireScript eng' m s = requireScript eng m s"
    if d: "currentlyRequiredModule s = D" for m s
  proof -
    have "currentlyRequiredModule (snd (Link eng m s)) = D"
      using Link_pointer [OF keep] d by simp
    then have "CyclicModuleRecordEvaluate eng' m (snd (Link eng m s))
                 = CyclicModuleRecordEvaluate eng m (snd (Link eng m s))"
      by (rule ev)
    then show ?thesis
      by (cases "Link eng m s")
         (simp add: requireScript_def ln [OF d] split: outcome.splits option.splits)
  qed
  have rr: "currentlyRequiredModule (snd (requireResolve env specifier w)) = D"
    using at by (simp add: requireResolve_pointer)
  show ?thesis
  proof (cases "requireResolve env specifier w")
    case (Pair r w1)
    then have "currentlyRequiredModule w1 = D" using rr by simp
    then show ?thesis
      by (simp add: Require_body_def Pair go sc
          split: outcome.splits option.splits prod.splits ModuleRecord.splits)
  qed
qed

text \<open>
  C4. A \<open>require\<close> of a specifier outside the built-in namespace that canonicalizes
  against the pointer: whatever the outcome (a value, an error or a panic), the pointer
  is back at its value at entry when the call returns; the call is its body run with the
  pointer set to the directory of the resolved file; and the engine (the module bodies
  and \<open>Link\<close>) is only entered in states where the pointer is that directory, as long as
  \<open>Link\<close> does not move it: an engine that differs only in other states gives the same call.
  A nested \<open>require\<close> made by a module body therefore reads that directory as its base.
\<close>

theorem Require_pointer:
  assumes "\<not> builtin specifier"
    and "loader_Resolve env (currentlyRequiredModule w) specifier = Inr fileURL"
  shows "currentlyRequiredModule (snd (Require env eng specifier w)) = currentlyRequiredModule w
    \<and> Require env eng specifier w
        = (let (res, w1) = Require_body env eng specifier
                             (w\<lparr>currentlyRequiredModule := loader_Dir env fileURL\<rparr>)
           in (res, w1\<lparr>currentlyRequiredModule := currentlyRequiredModule w\<rparr>))
    \<and> ((\<forall>m s. currentlyRequiredModule (snd (SourceTextModule_Link eng m s))
                  = currentlyRequiredModule s)
        \<and> (\<forall>m s. currentlyRequiredModule s = loader_Dir env fileURL \<longrightarrow>
                  CyclicModuleRecordEvaluate eng' m s = CyclicModuleRecordEvaluate eng m s
                  \<and> SourceTextModule_Link eng' m s = SourceTextModule_Link eng m s)
        \<longrightarrow> Require env eng' specifier w = Require env eng specifier w)"
proof (intro conjI impI)
  show "currentlyRequiredModule (snd (Require env eng specifier w)) = currentlyRequiredModule w"
    using assms by (simp add: Require_def Let_def split: prod.splits)
  show "Require env eng specifier w
        = (let (res, w1) = Require_body env eng specifier
                             (w\<lparr>currentlyRequiredModule := loader_Dir env fileURL\<rparr>)
           in (res, w1\<lparr>currentlyRequiredModule := currentlyRequiredModule w\<rparr>))"
    using assms by (simp add: Require_def Let_def)
  assume h: "(\<forall>m s. currentlyRequiredModule (snd (SourceTextModule_Link eng m s))
                  = currentlyRequiredModule s)
        \<and> (\<forall>m s. currentlyRequiredModule s = loader_Dir env fileURL \<longrightarrow>
                  CyclicModuleRecordEvaluate eng' m s = CyclicModuleRecordEvaluate eng m s
                  \<and> SourceTextModule_Link eng' m s = SourceTextModule_Link eng m s)"
  have "Require_body env eng' specifier (w\<lparr>currentlyRequiredModule := loader_Dir env fileURL\<rparr>)
          = Require_body env eng specifier (w\<lparr>currentlyRequiredModule := loader_Dir env fileURL\<rparr>)"
    by (rule Require_body_agree [where D = "loader_Dir env fileURL"]) (use h in simp_all)
  then show "Require env eng' specifier w = Require env eng specifier w"
    using assms by (simp add: Require_def Let_def)
qed

lemmas nested_defs = nestedEngine_def nestedStack_def

theorem Require_pointer_witness:
  "\<not> builtin ''./sub/c.js''
   \<and> loader_Resolve demoEnv (currentlyRequiredModule demoWorld) ''./sub/c.js''
       = Inr (URL ''file'' [] ''/a/sub/c.js'')
   \<and> fst (Require demoEnv nestedEngine ''./sub/c.js'' demoWorld) = Ok (ExportsObject (Some 1))
   \<and> currentlyRequiredModule (snd (Require demoEnv nestedEngine ''./sub/c.js'' demoWorld))
       = URL ''file'' [] ''/a/''
   \<and> loadCalls (resolver (snd (Require demoEnv nestedEngine ''./sub/c.js'' demoWorld)))
       = [''file:///a/b.js'', ''file:///a/sub/c.js'', ''file:///a/sub/d.js'']"
proof -
  have nb: "\<not> builtin ''./sub/c.js''" by (simp add: builtin_def)
  have res: "loader_Resolve demoEnv (currentlyRequiredModule demoWorld) ''./sub/c.js''
       = Inr (URL ''file'' [] ''/a/sub/c.js'')"
    by (simp add: demo_defs demo_world_defs)
  have run: "fst (Require demoEnv nestedEngine ''./sub/c.js'' demoWorld) = Ok (ExportsObject (Some 1))
    \<and> loadCalls (resolver (snd (Require demoEnv nestedEngine ''./sub/c.js'' demoWorld)))
       = [''file:///a/b.js'', ''file:///a/sub/c.js'', ''file:///a/sub/d.js'']"
    by (simp add: require_defs resolver_defs demo_defs demo_world_defs nested_defs Let_def)
  have ptr: "currentlyRequiredModule demoWorld = URL ''file'' [] ''/a/''"
    by (simp add: demoWorld_def)
  show ?thesis
    using Require_pointer [OF nb res, of nestedEngine nestedEngine, THEN conjunct1]
      nb res run ptr by simp
qed

end
